theory Spec2Isabelle
  imports Main
begin

section \<open>Go values used by the duration rolling file\<close>

text \<open>
  A \<open>time.Time\<close> is modelled by the instant it denotes, in nanoseconds since the Unix
  epoch and displayed in UTC; a \<open>time.Duration\<close> is a signed 64-bit count of nanoseconds,
  kept as an integer with the saturation of \<open>Time.Sub\<close> written out; a \<open>[]byte\<close> is a
  list of 8-bit characters.
\<close>

type_synonym Time = int
type_synonym Duration = int
type_synonym bytes = string

definition Second :: Duration where
  "Second = 1000000000"

definition maxDuration :: Duration where
  "maxDuration = 2 ^ 63 - 1"

definition minDurationValue :: Duration where
  "minDurationValue = - (2 ^ 63)"

text \<open>\<open>t.Sub(u)\<close>: the difference, saturated at the largest and smallest duration.\<close>

definition Sub :: "Time \<Rightarrow> Time \<Rightarrow> Duration" where
  "Sub t u = (let d = t - u in
     if d > maxDuration then maxDuration
     else if d < minDurationValue then minDurationValue
     else d)"

text \<open>The zero \<open>time.Time\<close> (January 1, year 1, 00:00:00 UTC), the value of an unset field.\<close>

definition zeroTime :: Time where
  "zeroTime = - 62135596800 * Second"

text \<open>
  Go errors: \<open>os.ErrInvalid\<close> is what every method of a nil \<open>*os.File\<close> returns;
  \<open>ErrorString\<close> stands for any other error value (\<open>errors.New\<close>, a path error of the
  operating system), carrying its message.
\<close>

datatype error = ErrInvalid | ErrorString string

section \<open>The operating system seen by the rolling file\<close>

text \<open>
  The rolling file reaches the outside through four calls: \<open>time.Now()\<close>,
  \<open>CreateFileOf(path)\<close>, \<open>(*os.File).Write\<close> and \<open>(*os.File).Close\<close>. Their behaviour is
  a parameter: a record of functions over an arbitrary environment \<open>'x\<close>, with file
  handles of an arbitrary type \<open>'f\<close>. Every call that reaches the operating system is
  appended, with its result, to a trace, so that which calls a method makes is a fact
  about its result.
\<close>

datatype 'f event =
    Create string "error + 'f"
  | FWrite 'f bytes "int \<times> error option"
  | FClose 'f "error option"

record ('f, 'x) os =
  now_of :: "'x \<Rightarrow> Time"
  create_of :: "string \<Rightarrow> 'x \<Rightarrow> (error + 'f) \<times> 'x"
  write_of :: "'f \<Rightarrow> bytes \<Rightarrow> 'x \<Rightarrow> (int \<times> error option) \<times> 'x"
  close_of :: "'f \<Rightarrow> 'x \<Rightarrow> error option \<times> 'x"

record ('f, 'x) world =
  trace :: "'f event list"
  ext :: "'x"

text \<open>
  \<open>CreateFileOf(path)\<close> is defined elsewhere in the package; here it is the field
  \<open>create_of\<close>: it returns a new handle or an error.
\<close>

definition CreateFileOf ::
  "('f, 'x) os \<Rightarrow> string \<Rightarrow> ('f, 'x) world \<Rightarrow> (error + 'f) \<times> ('f, 'x) world" where
  "CreateFileOf sys path w =
     (let (r, x) = create_of sys path (ext w)
      in (r, \<lparr>trace = trace w @ [Create path r], ext = x\<rparr>))"

text \<open>
  \<open>f.Write(p)\<close> on a \<open>*os.File\<close>: a nil receiver returns \<open>(0, os.ErrInvalid)\<close> without
  reaching the operating system.
\<close>

definition File_Write ::
  "('f, 'x) os \<Rightarrow> 'f option \<Rightarrow> bytes \<Rightarrow> ('f, 'x) world
     \<Rightarrow> (int \<times> error option) \<times> ('f, 'x) world" where
  "File_Write sys f p w =
     (case f of
        None \<Rightarrow> ((0, Some ErrInvalid), w)
      | Some h \<Rightarrow>
          (let (r, x) = write_of sys h p (ext w)
           in (r, \<lparr>trace = trace w @ [FWrite h p r], ext = x\<rparr>)))"

text \<open>\<open>f.Close()\<close> on a \<open>*os.File\<close>: a nil receiver returns \<open>os.ErrInvalid\<close>.\<close>

definition File_Close ::
  "('f, 'x) os \<Rightarrow> 'f option \<Rightarrow> ('f, 'x) world \<Rightarrow> error option \<times> ('f, 'x) world" where
  "File_Close sys f w =
     (case f of
        None \<Rightarrow> (Some ErrInvalid, w)
      | Some h \<Rightarrow>
          (let (e, x) = close_of sys h (ext w)
           in (e, \<lparr>trace = trace w @ [FClose h e], ext = x\<rparr>)))"

section \<open>DurationRollingFile\<close>

text \<open>
  A \<open>NameGenerator\<close> maps a directory and the current time to the next path. It is Go
  code of the caller and may keep state of its own (the default one draws from a shared
  random generator), so it acts on the environment.
\<close>

type_synonym 'x NameGenerator = "string \<Rightarrow> Time \<Rightarrow> 'x \<Rightarrow> string \<times> 'x"

text \<open>
  The struct, without its mutex: every method holds \<open>mu\<close> from entry to return, and the
  model runs one method at a time.
\<close>

record ('f, 'x) DurationRollingFile =
  "file" :: "'f option"
  directory :: string
  lastTime :: Time
  duration :: Duration
  nameGenerator :: "'x NameGenerator"

definition minDuration :: Duration where
  "minDuration = 1 * Second"

text \<open>
  \<open>NewDurationRollingFile\<close>: a panic is the left injection, carrying the panic value
  (\<open>minDuration.String()\<close> is \<open>1s\<close>). \<open>DefaultNameGenerator()\<close>, defined elsewhere in
  the package, is evaluated only after the check; its value is the parameter \<open>dflt\<close>.
  The constructor makes no call to the operating system: the world is returned as it
  was found.
\<close>

definition NewDurationRollingFile ::
  "'x NameGenerator \<Rightarrow> string \<Rightarrow> Duration \<Rightarrow> ('f, 'x) world
     \<Rightarrow> (error + ('f, 'x) DurationRollingFile) \<times> ('f, 'x) world" where
  "NewDurationRollingFile dflt dir d w =
     (if d < minDuration
      then (Inl (ErrorString (''Duration is smaller than '' @ ''1s'' @ [CHR 0x0A])), w)
      else (Inr \<lparr>file = None, directory = dir, lastTime = zeroTime, duration = d,
                 nameGenerator = dflt\<rparr>, w))"

text \<open>\<open>drf.nameGenerator.NextName(drf.directory, now)\<close>.\<close>

definition NextName ::
  "('f, 'x) DurationRollingFile \<Rightarrow> Time \<Rightarrow> ('f, 'x) world \<Rightarrow> string \<times> ('f, 'x) world" where
  "NextName drf now w =
     (let (path, x) = nameGenerator drf (directory drf) now (ext w)
      in (path, w\<lparr>ext := x\<rparr>))"

text \<open>
  \<open>rollingToNextFile\<close>: on a creation error it returns at once; otherwise it closes the
  current file, dropping what \<open>Close\<close> returns, and installs the new one.
\<close>

definition rollingToNextFile ::
  "('f, 'x) os \<Rightarrow> Time \<Rightarrow> ('f, 'x) DurationRollingFile \<Rightarrow> ('f, 'x) world
     \<Rightarrow> ('f, 'x) DurationRollingFile \<times> ('f, 'x) world" where
  "rollingToNextFile sys now drf w =
     (let (path, w1) = NextName drf now w;
          (r, w2) = CreateFileOf sys path w1
      in case r of
           Inl err \<Rightarrow> (drf, w2)
         | Inr newFile \<Rightarrow>
             (let (e, w3) = File_Close sys (file drf) w2
              in (drf\<lparr>file := Some newFile, lastTime := now\<rparr>, w3)))"

text \<open>\<open>ensureFileIsCorrect\<close>: the rotation check, with Go's short-circuit \<open>||\<close>.\<close>

definition ensureFileIsCorrect ::
  "('f, 'x) os \<Rightarrow> ('f, 'x) DurationRollingFile \<Rightarrow> ('f, 'x) world
     \<Rightarrow> ('f, 'x) DurationRollingFile \<times> ('f, 'x) world" where
  "ensureFileIsCorrect sys drf w =
     (let now = now_of sys (ext w)
      in if file drf = None \<or> Sub now (lastTime drf) \<ge> duration drf
         then rollingToNextFile sys now drf w
         else (drf, w))"

text \<open>\<open>Write\<close>: the check, then the write on whatever \<open>drf.file\<close> is now.\<close>

definition Write ::
  "('f, 'x) os \<Rightarrow> bytes \<Rightarrow> ('f, 'x) DurationRollingFile \<Rightarrow> ('f, 'x) world
     \<Rightarrow> (int \<times> error option) \<times> ('f, 'x) DurationRollingFile \<times> ('f, 'x) world" where
  "Write sys p drf w =
     (let (drf1, w1) = ensureFileIsCorrect sys drf w;
          (r, w2) = File_Write sys (file drf1) p w1
      in (r, drf1, w2))"

definition Close ::
  "('f, 'x) os \<Rightarrow> ('f, 'x) DurationRollingFile \<Rightarrow> ('f, 'x) world
     \<Rightarrow> error option \<times> ('f, 'x) DurationRollingFile \<times> ('f, 'x) world" where
  "Close sys drf w =
     (let (e, w1) = File_Close sys (file drf) w in (e, drf, w1))"

definition SetNameGenerator ::
  "'x NameGenerator \<Rightarrow> ('f, 'x) DurationRollingFile \<Rightarrow> ('f, 'x) DurationRollingFile" where
  "SetNameGenerator newNameGenerator drf = drf\<lparr>nameGenerator := newNameGenerator\<rparr>"

section \<open>The default file name\<close>

subsection \<open>Library functions it calls\<close>

text \<open>\<open>strconv.Itoa\<close>: decimal digits, most significant first, with a sign for negatives.\<close>

definition digitChar :: "nat \<Rightarrow> char" where
  "digitChar d = ''0123456789'' ! (d mod 10)"

function natDigits :: "nat \<Rightarrow> string" where
  "natDigits n = (if n < 10 then [digitChar n] else natDigits (n div 10) @ [digitChar (n mod 10)])"
  by pat_completeness auto
termination
  by (relation "measure (\<lambda>n. n)") auto

definition Itoa :: "int \<Rightarrow> string" where
  "Itoa i = (if i < 0 then CHR ''-'' # natDigits (nat (- i)) else natDigits (nat i))"

text \<open>
  The number printer of \<open>Time.Format\<close>: at least \<open>width\<close> digits, padded with zeros on
  the left, after the sign.
\<close>

definition appendInt :: "int \<Rightarrow> nat \<Rightarrow> string" where
  "appendInt x width =
     (let ds = natDigits (nat \<bar>x\<bar>);
          padded = replicate (width - length ds) CHR ''0'' @ ds
      in if x < 0 then CHR ''-'' # padded else padded)"

text \<open>
  The calendar date of a day number (days since 1970-01-01) in the proleptic Gregorian
  calendar: year, month, day of month.
\<close>

definition civil :: "int \<Rightarrow> int \<times> int \<times> int" where
  "civil days =
     (let z = days + 719468;
          era = z div 146097;
          doe = z - era * 146097;
          yoe = (doe - doe div 1460 + doe div 36524 - doe div 146096) div 365;
          doy = doe - (365 * yoe + yoe div 4 - yoe div 100);
          mp = (5 * doy + 2) div 153;
          d = doy - (153 * mp + 2) div 5 + 1;
          m = (if mp < 10 then mp + 3 else mp - 9);
          y = yoe + era * 400 + (if m \<le> 2 then 1 else 0)
      in (y, m, d))"

text \<open>
  \<open>now.Format("20060102-150405")\<close>: the layout is the four-digit year, the two-digit
  month and day, a literal dash, and the two-digit hour, minute and second.
\<close>

definition Format_20060102_150405 :: "Time \<Rightarrow> string" where
  "Format_20060102_150405 t =
     (let secs = t div Second;
          (y, m, d) = civil (secs div 86400);
          r = secs mod 86400
      in appendInt y 4 @ appendInt m 2 @ appendInt d 2 @ ''-'' @
         appendInt (r div 3600) 2 @ appendInt (r mod 3600 div 60) 2 @ appendInt (r mod 60) 2)"

text \<open>
  \<open>path.Clean\<close>, on the output buffer kept in reverse: \<open>unwind\<close> is the backward scan of
  a \<open>..\<close> element, which drops the last element written and its separator.
\<close>

fun unwind :: "nat \<Rightarrow> char \<Rightarrow> string \<Rightarrow> string" where
  "unwind dotdot c [] = []"
| "unwind dotdot c (x # xs) =
     (if length (x # xs) > dotdot \<and> c \<noteq> CHR ''/'' then unwind dotdot x xs else x # xs)"

function cleanLoop :: "bool \<Rightarrow> nat \<Rightarrow> string \<Rightarrow> string \<Rightarrow> string" where
  "cleanLoop rooted dotdot out [] = out"
| "cleanLoop rooted dotdot out (c # cs) =
     (if c = CHR ''/'' then cleanLoop rooted dotdot out cs
      else if c = CHR ''.'' \<and> (cs = [] \<or> hd cs = CHR ''/'') then cleanLoop rooted dotdot out cs
      else if c = CHR ''.'' \<and> cs \<noteq> [] \<and> hd cs = CHR ''.''
              \<and> (tl cs = [] \<or> hd (tl cs) = CHR ''/'') then
        (if length out > dotdot
         then cleanLoop rooted dotdot (unwind dotdot (hd out) (tl out)) (tl cs)
         else if \<not> rooted
         then (let out' = ''..'' @ (if length out > 0 then CHR ''/'' # out else out)
               in cleanLoop rooted (length out') out' (tl cs))
         else cleanLoop rooted dotdot out (tl cs))
      else
        (let out' = (if rooted \<and> length out \<noteq> 1 \<or> \<not> rooted \<and> length out \<noteq> 0
                     then CHR ''/'' # out else out)
         in cleanLoop rooted dotdot
              (rev (c # takeWhile (\<lambda>x. x \<noteq> CHR ''/'') cs) @ out')
              (dropWhile (\<lambda>x. x \<noteq> CHR ''/'') cs)))"
  by pat_completeness auto
termination
  by (relation "measure (\<lambda>(rooted, dotdot, out, path). length path)")
     (auto simp: length_dropWhile_le less_Suc_eq_le)

definition Clean :: "string \<Rightarrow> string" where
  "Clean path =
     (if path = [] then ''.''
      else
        (let rooted = (hd path = CHR ''/'');
             out = (if rooted then cleanLoop True 1 ''/'' (tl path)
                    else cleanLoop False 0 [] path)
         in if out = [] then ''.'' else rev out))"

text \<open>
  \<open>path.Join\<close>: the elements from the first non-empty one on, separated by slashes,
  cleaned; the empty string when every element is empty.
\<close>

fun joinSlash :: "string list \<Rightarrow> string" where
  "joinSlash [] = []"
| "joinSlash [e] = e"
| "joinSlash (e # es) = e @ CHR ''/'' # joinSlash es"

definition Join :: "string list \<Rightarrow> string" where
  "Join elem =
     (let rest = dropWhile (\<lambda>e. e = []) elem
      in if rest = [] then [] else Clean (joinSlash rest))"

subsection \<open>nextFilename\<close>

definition PrefixOfLogFile :: string where
  "PrefixOfLogFile = ''.log''"

text \<open>
  \<open>nextFilename(directory)\<close> returns a closure over \<open>directory\<close>. The closure draws from
  the package variable \<open>random\<close>: the state of that generator is passed in and returned,
  and the method \<open>Intn\<close> of \<open>math/rand\<close> is the parameter \<open>Intn\<close>.
\<close>

definition nextFilename ::
  "('r \<Rightarrow> int \<Rightarrow> int \<times> 'r) \<Rightarrow> string \<Rightarrow> Time \<Rightarrow> 'r \<Rightarrow> string \<times> 'r" where
  "nextFilename Intn dir =
     (\<lambda>now seed.
        let (k, seed') = Intn seed 1000;
            name = Format_20060102_150405 now @ ''-'' @ Itoa k @ PrefixOfLogFile
        in (Join [dir, name], seed'))"

section \<open>A small operating system for running the model\<close>

text \<open>
  An instance of the \<open>os\<close> record on which closed instances are evaluated: a clock set
  by hand, a disk of named files with a number of free bytes, file handles numbered in
  the order they were opened, a switch that makes every creation fail, and the state of
  the random generator (a counter: the draws are its successive values).
\<close>

record sim =
  clock :: Time
  disk :: "(string \<times> bytes) list"
  fds :: "string list"
  closed :: "nat list"
  space :: nat
  refuse :: bool
  rng :: nat

definition sim_create :: "string \<Rightarrow> sim \<Rightarrow> (error + nat) \<times> sim" where
  "sim_create path x =
     (if refuse x then (Inl (ErrorString ''permission denied''), x)
      else (Inr (length (fds x)),
            x\<lparr>fds := fds x @ [path],
              disk := (if path \<in> set (map fst (disk x)) then disk x
                       else disk x @ [(path, [])])\<rparr>))"

definition sim_write :: "nat \<Rightarrow> bytes \<Rightarrow> sim \<Rightarrow> (int \<times> error option) \<times> sim" where
  "sim_write h p x =
     (if h \<ge> length (fds x) then ((0, Some ErrInvalid), x)
      else if h \<in> set (closed x) then ((0, Some (ErrorString ''file already closed'')), x)
      else
        (let n = min (length p) (space x)
         in ((int n, if n < length p then Some (ErrorString ''no space left on device'')
                     else None),
             x\<lparr>disk := map (\<lambda>(q, c). if q = fds x ! h then (q, c @ take n p) else (q, c))
                          (disk x),
               space := space x - n\<rparr>)))"

definition sim_close :: "nat \<Rightarrow> sim \<Rightarrow> error option \<times> sim" where
  "sim_close h x =
     (if h \<ge> length (fds x) then (Some ErrInvalid, x)
      else if h \<in> set (closed x) then (Some (ErrorString ''file already closed''), x)
      else (None, x\<lparr>closed := h # closed x\<rparr>))"

definition sim_os :: "(nat, sim) os" where
  "sim_os = \<lparr>now_of = clock, create_of = sim_create, write_of = sim_write,
             close_of = sim_close\<rparr>"

definition sim_Intn :: "nat \<Rightarrow> int \<Rightarrow> int \<times> nat" where
  "sim_Intn r n = (int r mod n, Suc r)"

text \<open>The default file name as a \<open>NameGenerator\<close> of this system.\<close>

definition sim_NextName :: "sim NameGenerator" where
  "sim_NextName dir now x =
     (let (name, r) = nextFilename sim_Intn dir now (rng x) in (name, x\<lparr>rng := r\<rparr>))"

definition sim0 :: sim where
  "sim0 = \<lparr>clock = 0, disk = [], fds = [], closed = [], space = 1000, refuse = False,
           rng = 0\<rparr>"

definition world0 :: "(nat, sim) world" where
  "world0 = \<lparr>trace = [], ext = sim0\<rparr>"

text \<open>Moving the clock, and switching creation failures, between two calls.\<close>

definition at_time :: "Time \<Rightarrow> ('f, sim) world \<Rightarrow> ('f, sim) world" where
  "at_time t w = w\<lparr>ext := (ext w)\<lparr>clock := t\<rparr>\<rparr>"

definition refusing :: "bool \<Rightarrow> ('f, sim) world \<Rightarrow> ('f, sim) world" where
  "refusing b w = w\<lparr>ext := (ext w)\<lparr>refuse := b\<rparr>\<rparr>"

text \<open>The events a call appended to the trace.\<close>

definition new_events :: "('f, 'x) world \<Rightarrow> ('f, 'x) world \<Rightarrow> 'f event list" where
  "new_events w w' = drop (length (trace w)) (trace w')"

text \<open>A rolling file of this system as the constructor returns it for one second.\<close>

definition sim_drf :: "(nat, sim) DurationRollingFile" where
  "sim_drf = \<lparr>file = None, directory = ''D'', lastTime = zeroTime, duration = Second,
              nameGenerator = sim_NextName\<rparr>"

text \<open>Which events are creations, and which are writes.\<close>

fun is_Create :: "'f event \<Rightarrow> bool" where
  "is_Create (Create path r) = True"
| "is_Create (FWrite h p r) = False"
| "is_Create (FClose h e) = False"

fun is_FWrite :: "'f event \<Rightarrow> bool" where
  "is_FWrite (Create path r) = False"
| "is_FWrite (FWrite h p r) = True"
| "is_FWrite (FClose h e) = False"

definition with_space :: "nat \<Rightarrow> ('f, sim) world \<Rightarrow> ('f, sim) world" where
  "with_space n w = w\<lparr>ext := (ext w)\<lparr>space := n\<rparr>\<rparr>"

text \<open>
  The rolling file after a first write of \<open>A\<close> at time 0 on a fresh rolling file of one
  second, the world after that write with the clock moved to \<open>t\<close>, and a second write
  of \<open>B\<close> at that time.
\<close>

definition sim_drf1 :: "(nat, sim) DurationRollingFile" where
  "sim_drf1 = fst (snd (Write sim_os ''A'' sim_drf world0))"

definition sim_world1 :: "Time \<Rightarrow> (nat, sim) world" where
  "sim_world1 t = at_time t (snd (snd (Write sim_os ''A'' sim_drf world0)))"

definition sim_two_writes ::
  "Time \<Rightarrow> (int \<times> error option) \<times> (nat, sim) DurationRollingFile \<times> (nat, sim) world" where
  "sim_two_writes t = Write sim_os ''B'' sim_drf1 (sim_world1 t)"

text \<open>A name generator that ignores the time.\<close>

definition sim_fixed_name :: "sim NameGenerator" where
  "sim_fixed_name dir now x = (dir @ ''/custom.log'', x)"

text \<open>The world after that first write and an explicit \<open>Close\<close>, with the clock at \<open>t\<close>.\<close>

definition sim_world1_closed :: "Time \<Rightarrow> (nat, sim) world" where
  "sim_world1_closed t = snd (snd (Close sim_os sim_drf1 (sim_world1 t)))"

section \<open>Basic facts\<close>

lemma new_events_append: "trace w' = trace w @ es \<Longrightarrow> new_events w w' = es"
  by (simp add: new_events_def)

lemma rollingToNextFile_fail:
  assumes "nameGenerator drf (directory drf) now (ext w) = (path, x1)"
    and "create_of sys path x1 = (Inl err, x2)"
  shows "rollingToNextFile sys now drf w
           = (drf, \<lparr>trace = trace w @ [Create path (Inl err)], ext = x2\<rparr>)"
  using assms by (simp add: rollingToNextFile_def NextName_def CreateFileOf_def)

lemma rollingToNextFile_ok_None:
  assumes "nameGenerator drf (directory drf) now (ext w) = (path, x1)"
    and "create_of sys path x1 = (Inr h, x2)"
    and "file drf = None"
  shows "rollingToNextFile sys now drf w
           = (drf\<lparr>file := Some h, lastTime := now\<rparr>,
              \<lparr>trace = trace w @ [Create path (Inr h)], ext = x2\<rparr>)"
  using assms
  by (simp add: rollingToNextFile_def NextName_def CreateFileOf_def File_Close_def)

lemma rollingToNextFile_ok_Some:
  assumes "nameGenerator drf (directory drf) now (ext w) = (path, x1)"
    and "create_of sys path x1 = (Inr h, x2)"
    and "file drf = Some old"
    and "close_of sys old x2 = (e, x3)"
  shows "rollingToNextFile sys now drf w
           = (drf\<lparr>file := Some h, lastTime := now\<rparr>,
              \<lparr>trace = trace w @ [Create path (Inr h), FClose old e], ext = x3\<rparr>)"
  using assms
  by (simp add: rollingToNextFile_def NextName_def CreateFileOf_def File_Close_def)

lemma ensure_due:
  "file drf = None \<or> duration drf \<le> Sub (now_of sys (ext w)) (lastTime drf) \<Longrightarrow>
   ensureFileIsCorrect sys drf w = rollingToNextFile sys (now_of sys (ext w)) drf w"
  by (simp add: ensureFileIsCorrect_def Let_def)

lemma ensure_not_due:
  "file drf = Some h \<Longrightarrow> Sub (now_of sys (ext w)) (lastTime drf) < duration drf \<Longrightarrow>
   ensureFileIsCorrect sys drf w = (drf, w)"
  by (simp add: ensureFileIsCorrect_def Let_def)

lemma Sub_ge_iff:
  assumes "minDurationValue < d" and "d \<le> maxDuration"
  shows "d \<le> Sub t u \<longleftrightarrow> d \<le> t - u"
  using assms by (auto simp: Sub_def Let_def)

lemma Sub_mono: "t \<le> t' \<Longrightarrow> Sub t u \<le> Sub t' u"
  by (auto simp: Sub_def Let_def maxDuration_def minDurationValue_def)


lemma Write_not_due:
  assumes "file drf = Some h"
    and "Sub (now_of sys (ext w)) (lastTime drf) < duration drf"
    and "write_of sys h p (ext w) = (r, x)"
  shows "Write sys p drf w = (r, drf, \<lparr>trace = trace w @ [FWrite h p r], ext = x\<rparr>)"
  using assms by (simp add: Write_def ensure_not_due File_Write_def)

lemma Write_due_fail:
  assumes "file drf = None \<or> duration drf \<le> Sub (now_of sys (ext w)) (lastTime drf)"
    and "nameGenerator drf (directory drf) (now_of sys (ext w)) (ext w) = (path, x1)"
    and "create_of sys path x1 = (Inl err, x2)"
  shows "Write sys p drf w
           = (fst (File_Write sys (file drf) p
                     \<lparr>trace = trace w @ [Create path (Inl err)], ext = x2\<rparr>),
              drf,
              snd (File_Write sys (file drf) p
                     \<lparr>trace = trace w @ [Create path (Inl err)], ext = x2\<rparr>))"
  using assms(1) rollingToNextFile_fail [OF assms(2,3)]
  by (simp add: Write_def ensure_due split_beta)

lemma Write_due_ok_None:
  assumes "file drf = None"
    and "nameGenerator drf (directory drf) (now_of sys (ext w)) (ext w) = (path, x1)"
    and "create_of sys path x1 = (Inr h, x2)"
    and "write_of sys h p x2 = (r, x4)"
  shows "Write sys p drf w
           = (r, drf\<lparr>file := Some h, lastTime := now_of sys (ext w)\<rparr>,
              \<lparr>trace = trace w @ [Create path (Inr h), FWrite h p r], ext = x4\<rparr>)"
  using assms(1,4) rollingToNextFile_ok_None [OF assms(2,3,1)]
  by (simp add: Write_def ensure_due File_Write_def)

lemma Write_due_ok_Some:
  assumes "file drf = Some old"
    and "duration drf \<le> Sub (now_of sys (ext w)) (lastTime drf)"
    and "nameGenerator drf (directory drf) (now_of sys (ext w)) (ext w) = (path, x1)"
    and "create_of sys path x1 = (Inr h, x2)"
    and "close_of sys old x2 = (e, x3)"
    and "write_of sys h p x3 = (r, x4)"
  shows "Write sys p drf w
           = (r, drf\<lparr>file := Some h, lastTime := now_of sys (ext w)\<rparr>,
              \<lparr>trace = trace w @ [Create path (Inr h), FClose old e, FWrite h p r],
                ext = x4\<rparr>)"
  using assms(2,6) rollingToNextFile_ok_Some [OF assms(3,4,1,5)]
  by (simp add: Write_def ensure_due File_Write_def)

lemma Write_events_due:
  assumes "file drf = None \<or> duration drf \<le> Sub (now_of sys (ext w)) (lastTime drf)"
  shows "\<exists>path r es. new_events w (snd (snd (Write sys p drf w))) = Create path r # es
           \<and> path = fst (nameGenerator drf (directory drf) (now_of sys (ext w)) (ext w))"
  using assms
  by (auto simp: Write_def ensure_due rollingToNextFile_def NextName_def CreateFileOf_def
      File_Close_def File_Write_def new_events_def split_beta split: sum.splits option.splits)

lemma Write_events_not_due:
  assumes "file drf = Some h" and "Sub (now_of sys (ext w)) (lastTime drf) < duration drf"
  shows "new_events w (snd (snd (Write sys p drf w))) = [FWrite h p (fst (Write sys p drf w))]"
  using assms
  by (simp add: Write_def ensure_not_due File_Write_def new_events_def split_beta)

lemma Write_rotation_iff_Sub:
  "list_ex is_Create (new_events w (snd (snd (Write sys p drf w))))
     \<longleftrightarrow> (file drf = None \<or> duration drf \<le> Sub (now_of sys (ext w)) (lastTime drf))"
proof (cases "file drf = None \<or> duration drf \<le> Sub (now_of sys (ext w)) (lastTime drf)")
  case True
  from Write_events_due [OF True, of p] obtain path r es
    where "new_events w (snd (snd (Write sys p drf w))) = Create path r # es" by blast
  with True show ?thesis by simp
next
  case False
  then obtain h where h: "file drf = Some h"
    and nd: "Sub (now_of sys (ext w)) (lastTime drf) < duration drf" by auto
  from Write_events_not_due [OF h nd, of p] False show ?thesis by simp
qed


subsection \<open>Runs of the small operating system\<close>

lemma Format_at_0: "Format_20060102_150405 0 = ''19700101-000000''"
  by code_simp

lemma Format_at_1500ms: "Format_20060102_150405 1500000000 = ''19700101-000001''"
  by code_simp

lemma Itoa_0: "Itoa 0 = ''0''"
  by code_simp

lemma Itoa_1: "Itoa 1 = ''1''"
  by code_simp

lemma Join_D_0: "Join [''D'', ''19700101-000000-0.log''] = ''D/19700101-000000-0.log''"
  by code_simp

lemma Join_D_1: "Join [''D'', ''19700101-000001-1.log''] = ''D/19700101-000001-1.log''"
  by code_simp

lemma sim_name_0: "nextFilename sim_Intn ''D'' 0 0 = (''D/19700101-000000-0.log'', 1)"
  by (simp add: nextFilename_def sim_Intn_def PrefixOfLogFile_def Format_at_0 Itoa_0 Join_D_0)

lemma sim_name_1:
  "nextFilename sim_Intn ''D'' 1500000000 1 = (''D/19700101-000001-1.log'', 2)"
  by (simp add: nextFilename_def sim_Intn_def PrefixOfLogFile_def Format_at_1500ms Itoa_1
      Join_D_1)

lemma sim_name_Suc_0:
  "nextFilename sim_Intn ''D'' 1500000000 (Suc 0) = (''D/19700101-000001-1.log'', 2)"
  using sim_name_1 by simp

lemma sim_first_write:
  "Write sim_os ''A'' sim_drf world0
     = ((1, None), sim_drf\<lparr>file := Some 0, lastTime := 0\<rparr>,
        \<lparr>trace = [Create ''D/19700101-000000-0.log'' (Inr 0), FWrite 0 ''A'' (1, None)],
          ext = sim0\<lparr>rng := 1, fds := [''D/19700101-000000-0.log''],
                  disk := [(''D/19700101-000000-0.log'', ''A'')], space := 999\<rparr>\<rparr>)"
proof -
  have unset: "file sim_drf = None"
    by (simp add: sim_drf_def)
  have name: "nameGenerator sim_drf (directory sim_drf) (now_of sim_os (ext world0)) (ext world0)
      = (''D/19700101-000000-0.log'', sim0\<lparr>rng := 1\<rparr>)"
    by (simp add: sim_drf_def sim_os_def world0_def sim0_def sim_NextName_def sim_name_0)
  have created: "create_of sim_os ''D/19700101-000000-0.log'' (sim0\<lparr>rng := 1\<rparr>)
      = (Inr 0, sim0\<lparr>rng := 1, fds := [''D/19700101-000000-0.log''],
                      disk := [(''D/19700101-000000-0.log'', [])]\<rparr>)"
    by (simp add: sim_os_def sim_create_def sim0_def)
  have written: "write_of sim_os 0 ''A''
      (sim0\<lparr>rng := 1, fds := [''D/19700101-000000-0.log''],
             disk := [(''D/19700101-000000-0.log'', [])]\<rparr>)
      = ((1, None), sim0\<lparr>rng := 1, fds := [''D/19700101-000000-0.log''],
                      disk := [(''D/19700101-000000-0.log'', ''A'')], space := 999\<rparr>)"
    by (simp add: sim_os_def sim_write_def sim0_def)
  have tr: "trace world0 = []"
    by (simp add: world0_def)
  have now: "now_of sim_os (ext world0) = 0"
    by (simp add: sim_os_def world0_def sim0_def)
  show ?thesis
    using Write_due_ok_None [OF unset name created written]
    unfolding tr now append_Nil .
qed

text \<open>The rolling file and the world after the first write.\<close>

lemma sim_drf1_eq: "sim_drf1 = sim_drf\<lparr>file := Some 0, lastTime := 0\<rparr>"
  by (simp add: sim_drf1_def sim_first_write)

lemma sim_world1_eq:
  "sim_world1 t
     = \<lparr>trace = [Create ''D/19700101-000000-0.log'' (Inr 0), FWrite 0 ''A'' (1, None)],
        ext = sim0\<lparr>rng := 1, fds := [''D/19700101-000000-0.log''],
                disk := [(''D/19700101-000000-0.log'', ''A'')], space := 999,
                clock := t\<rparr>\<rparr>"
  by (simp add: sim_world1_def sim_first_write at_time_def)

lemma sim_two_writes_unfold:
  "sim_two_writes t
     = Write sim_os ''B'' (sim_drf\<lparr>file := Some 0, lastTime := 0\<rparr>)
        \<lparr>trace = [Create ''D/19700101-000000-0.log'' (Inr 0), FWrite 0 ''A'' (1, None)],
          ext = sim0\<lparr>rng := 1, fds := [''D/19700101-000000-0.log''],
                  disk := [(''D/19700101-000000-0.log'', ''A'')], space := 999,
                  clock := t\<rparr>\<rparr>"
  by (simp add: sim_two_writes_def sim_drf1_eq sim_world1_eq)

lemma sim_second_write_late:
  "sim_two_writes 1500000000
     = ((1, None), sim_drf\<lparr>file := Some 1, lastTime := 1500000000\<rparr>,
        \<lparr>trace = [Create ''D/19700101-000000-0.log'' (Inr 0), FWrite 0 ''A'' (1, None),
                  Create ''D/19700101-000001-1.log'' (Inr 1), FClose 0 None,
                  FWrite 1 ''B'' (1, None)],
          ext = sim0\<lparr>clock := 1500000000, rng := 2,
                  fds := [''D/19700101-000000-0.log'', ''D/19700101-000001-1.log''],
                  disk := [(''D/19700101-000000-0.log'', ''A''),
                           (''D/19700101-000001-1.log'', ''B'')],
                  closed := [0], space := 998\<rparr>\<rparr>)"
proof -
  let ?drf = "sim_drf\<lparr>file := Some 0, lastTime := 0\<rparr>"
  let ?x = "sim0\<lparr>rng := 1, fds := [''D/19700101-000000-0.log''],
                  disk := [(''D/19700101-000000-0.log'', ''A'')], space := 999,
                  clock := 1500000000\<rparr>"
  let ?w = "\<lparr>trace = [Create ''D/19700101-000000-0.log'' (Inr 0), FWrite 0 ''A'' (1, None)],
          ext = ?x\<rparr>"
  let ?x1 = "?x\<lparr>rng := 2\<rparr>"
  let ?x2 = "?x1\<lparr>fds := [''D/19700101-000000-0.log'', ''D/19700101-000001-1.log''],
      disk := [(''D/19700101-000000-0.log'', ''A''), (''D/19700101-000001-1.log'', [])]\<rparr>"
  let ?x3 = "?x2\<lparr>closed := [0]\<rparr>"
  let ?x4 = "?x3\<lparr>disk := [(''D/19700101-000000-0.log'', ''A''),
      (''D/19700101-000001-1.log'', ''B'')], space := 998\<rparr>"
  have set: "file ?drf = Some 0"
    by simp
  have due: "duration ?drf \<le> Sub (now_of sim_os (ext ?w)) (lastTime ?drf)"
    by (simp add: sim_drf_def sim_os_def Sub_def Second_def maxDuration_def
        minDurationValue_def)
  have name: "nameGenerator ?drf (directory ?drf) (now_of sim_os (ext ?w)) (ext ?w)
      = (''D/19700101-000001-1.log'', ?x1)"
    by (simp add: sim_drf_def sim_os_def sim0_def sim_NextName_def sim_name_Suc_0)
  have created: "create_of sim_os ''D/19700101-000001-1.log'' ?x1 = (Inr 1, ?x2)"
    by (simp add: sim_os_def sim_create_def sim0_def)
  have closing: "close_of sim_os 0 ?x2 = (None, ?x3)"
    by (simp add: sim_os_def sim_close_def sim0_def)
  have written: "write_of sim_os 1 ''B'' ?x3 = ((1, None), ?x4)"
    by (simp add: sim_os_def sim_write_def sim0_def)
  have now: "now_of sim_os (ext ?w) = 1500000000"
    by (simp add: sim_os_def)
  have "Write sim_os ''B'' ?drf ?w
      = ((1, None), ?drf\<lparr>file := Some 1, lastTime := 1500000000\<rparr>,
         \<lparr>trace = trace ?w @ [Create ''D/19700101-000001-1.log'' (Inr 1), FClose 0 None,
            FWrite 1 ''B'' (1, None)], ext = ?x4\<rparr>)"
    using Write_due_ok_Some [OF set due name created closing written]
    unfolding now .
  then show ?thesis
    by (simp add: sim_two_writes_unfold sim0_def)
qed

lemma sim_second_write_early:
  "sim_two_writes 500000000
     = ((1, None), sim_drf\<lparr>file := Some 0, lastTime := 0\<rparr>,
        \<lparr>trace = [Create ''D/19700101-000000-0.log'' (Inr 0), FWrite 0 ''A'' (1, None),
                  FWrite 0 ''B'' (1, None)],
          ext = sim0\<lparr>clock := 500000000, rng := 1,
                  fds := [''D/19700101-000000-0.log''],
                  disk := [(''D/19700101-000000-0.log'', ''AB'')], space := 998\<rparr>\<rparr>)"
proof -
  let ?drf = "sim_drf\<lparr>file := Some 0, lastTime := 0\<rparr>"
  let ?x = "sim0\<lparr>rng := 1, fds := [''D/19700101-000000-0.log''],
                  disk := [(''D/19700101-000000-0.log'', ''A'')], space := 999,
                  clock := 500000000\<rparr>"
  let ?w = "\<lparr>trace = [Create ''D/19700101-000000-0.log'' (Inr 0), FWrite 0 ''A'' (1, None)],
          ext = ?x\<rparr>"
  let ?x4 = "?x\<lparr>disk := [(''D/19700101-000000-0.log'', ''AB'')], space := 998\<rparr>"
  have set: "file ?drf = Some 0"
    by simp
  have not_due: "Sub (now_of sim_os (ext ?w)) (lastTime ?drf) < duration ?drf"
    by (simp add: sim_drf_def sim_os_def Sub_def Second_def maxDuration_def
        minDurationValue_def)
  have written: "write_of sim_os 0 ''B'' (ext ?w) = ((1, None), ?x4)"
    by (simp add: sim_os_def sim_write_def sim0_def)
  from Write_not_due [OF set not_due written] show ?thesis
    by (simp add: sim_two_writes_unfold sim0_def)
qed

lemma sim_world1_closed_eq:
  "sim_world1_closed t
     = \<lparr>trace = [Create ''D/19700101-000000-0.log'' (Inr 0), FWrite 0 ''A'' (1, None),
                 FClose 0 None],
        ext = sim0\<lparr>rng := 1, fds := [''D/19700101-000000-0.log''],
                disk := [(''D/19700101-000000-0.log'', ''A'')], space := 999,
                clock := t, closed := [0]\<rparr>\<rparr>"
  by (simp add: sim_world1_closed_def Close_def File_Close_def sim_drf1_eq sim_world1_eq
      sim_os_def sim_close_def sim0_def)

lemma ensure_no_writes:
  "filter is_FWrite (new_events w (snd (ensureFileIsCorrect sys drf w))) = []"
  by (simp add: ensureFileIsCorrect_def rollingToNextFile_def NextName_def CreateFileOf_def
      File_Close_def new_events_def Let_def split_beta split: sum.splits option.splits)

lemma ensure_trace_prefix:
  "trace (snd (ensureFileIsCorrect sys drf w))
     = trace w @ new_events w (snd (ensureFileIsCorrect sys drf w))"
  by (simp add: ensureFileIsCorrect_def rollingToNextFile_def NextName_def CreateFileOf_def
      File_Close_def new_events_def Let_def split_beta split: sum.splits option.splits)

lemma Write_events_split:
  "new_events w (snd (snd (Write sys p drf w)))
     = new_events w (snd (ensureFileIsCorrect sys drf w))
       @ (case file (fst (ensureFileIsCorrect sys drf w)) of None \<Rightarrow> []
          | Some h \<Rightarrow> [FWrite h p (fst (Write sys p drf w))])"
proof -
  obtain drf1 w1 where e: "ensureFileIsCorrect sys drf w = (drf1, w1)"
    by (cases "ensureFileIsCorrect sys drf w")
  from ensure_trace_prefix [of sys drf w] e
  obtain es where tr: "trace w1 = trace w @ es"
    by simp
  then have es: "new_events w w1 = es"
    by (rule new_events_append)
  show ?thesis
  proof (cases "file drf1")
    case None
    with e show ?thesis
      by (simp add: Write_def File_Write_def)
  next
    case (Some h)
    obtain r x where written: "write_of sys h p (ext w1) = (r, x)"
      by (cases "write_of sys h p (ext w1)")
    have "Write sys p drf w = (r, drf1, \<lparr>trace = trace w1 @ [FWrite h p r], ext = x\<rparr>)"
      using e Some written by (simp add: Write_def File_Write_def)
    with e Some es tr show ?thesis
      by (simp add: new_events_def)
  qed
qed

subsection \<open>Digits and names\<close>






lemma sim_name_0_1: "nextFilename sim_Intn ''D'' 0 1 = (''D/19700101-000000-1.log'', 2)"
proof -
  have "Join [''D'', ''19700101-000000-1.log''] = ''D/19700101-000000-1.log''"
    by code_simp
  then show ?thesis
    by (simp add: nextFilename_def sim_Intn_def PrefixOfLogFile_def Format_at_0 Itoa_1)
qed

section \<open>Construction\<close>

text \<open>
  C5. A duration rolling file constructed with a threshold strictly below one second is
  not built: the constructor panics (the panic value is the left injection) and the
  world is as it was found, so no file was touched. With a threshold of one second or
  more the constructor returns the rolling file, its active file unset, and again the
  world is as it was found: no file is created before the first write.
\<close>

theorem NewDurationRollingFile_floor:
  "(d < Second \<longrightarrow>
      NewDurationRollingFile dflt dir d w
        = (Inl (ErrorString (''Duration is smaller than 1s'' @ [CHR 0x0A])), w))
   \<and> (Second \<le> d \<longrightarrow>
      NewDurationRollingFile dflt dir d w
        = (Inr \<lparr>file = None, directory = dir, lastTime = zeroTime, duration = d,
                 nameGenerator = dflt\<rparr>, w))"
  by (simp add: NewDurationRollingFile_def minDuration_def)

theorem NewDurationRollingFile_floor_witness:
  "(999999999 < Second
      \<and> NewDurationRollingFile sim_NextName ''D'' 999999999 world0
          = (Inl (ErrorString (''Duration is smaller than 1s'' @ [CHR 0x0A])), world0))
   \<and> (Second \<le> 1000000000
      \<and> NewDurationRollingFile sim_NextName ''D'' 1000000000 world0
          = (Inr sim_drf, world0))"
  using NewDurationRollingFile_floor [of 999999999 sim_NextName "''D''" world0]
    NewDurationRollingFile_floor [of 1000000000 sim_NextName "''D''" world0]
  by (simp add: Second_def sim_drf_def)

section \<open>When a write rotates\<close>

text \<open>
  C1. A write attempts a rotation (it asks for the creation of a file) if and only if,
  when it runs, the active file is unset or the time elapsed since the last rotation
  has reached the threshold. The threshold of a rolling file is a 64-bit duration of at
  least one second, for which the saturating \<open>Sub\<close> agrees with the difference. On the
  small operating system, with a threshold of one second, writes at time 0 and at 1.5
  seconds land in two distinct files, and writes at time 0 and at 0.5 seconds land in
  the same file.
\<close>

theorem Write_rotates_iff_due:
  "(Second \<le> duration drf \<and> duration drf \<le> maxDuration \<longrightarrow>
      (list_ex is_Create (new_events w (snd (snd (Write sys p drf w))))
         \<longleftrightarrow> (file drf = None \<or> duration drf \<le> now_of sys (ext w) - lastTime drf)))
   \<and> disk (ext (snd (snd (sim_two_writes 1500000000))))
       = [(''D/19700101-000000-0.log'', ''A''), (''D/19700101-000001-1.log'', ''B'')]
   \<and> disk (ext (snd (snd (sim_two_writes 500000000))))
       = [(''D/19700101-000000-0.log'', ''AB'')]"
proof -
  have general: "list_ex is_Create (new_events w (snd (snd (Write sys p drf w))))
         \<longleftrightarrow> (file drf = None \<or> duration drf \<le> now_of sys (ext w) - lastTime drf)"
    if "Second \<le> duration drf" and "duration drf \<le> maxDuration"
  proof -
    from that have "minDurationValue < duration drf"
      by (simp add: Second_def minDurationValue_def)
    from Sub_ge_iff [OF this that(2)] show ?thesis
      by (simp add: Write_rotation_iff_Sub)
  qed
  show ?thesis
    using general by (simp add: sim_second_write_late sim_second_write_early)
qed

theorem Write_rotates_iff_due_witness:
  "Second \<le> duration sim_drf1 \<and> duration sim_drf1 \<le> maxDuration
   \<and> list_ex is_Create (new_events (sim_world1 1500000000)
         (snd (snd (Write sim_os ''B'' sim_drf1 (sim_world1 1500000000)))))
   \<and> duration sim_drf1
       \<le> now_of sim_os (ext (sim_world1 1500000000)) - lastTime sim_drf1
   \<and> \<not> list_ex is_Create (new_events (sim_world1 500000000)
         (snd (snd (Write sim_os ''B'' sim_drf1 (sim_world1 500000000)))))
   \<and> \<not> duration sim_drf1
       \<le> now_of sim_os (ext (sim_world1 500000000)) - lastTime sim_drf1"
  using Write_rotates_iff_due [of sim_drf1 "sim_world1 1500000000" sim_os "''B''"]
    Write_rotates_iff_due [of sim_drf1 "sim_world1 500000000" sim_os "''B''"]
  by (simp add: sim_drf1_eq sim_world1_eq sim_drf_def sim_os_def Second_def maxDuration_def)

section \<open>A rotation whose creation fails\<close>

text \<open>
  C2. When a write attempts a rotation and the creation of the next file fails, the
  rolling file is unchanged: the handle and the time of the last rotation keep their
  values (an unset handle stays unset). The creation error is dropped: what \<open>Write\<close>
  returns is what the write on the previous handle returns (for an unset handle, the
  result of writing to a nil file), and after the failed creation the only call made is
  that write. The next write, at any time that is not earlier, attempts the rotation
  again.
\<close>

theorem failed_rotation_keeps_state:
  assumes due: "file drf = None \<or> duration drf \<le> Sub (now_of sys (ext w)) (lastTime drf)"
    and name: "nameGenerator drf (directory drf) (now_of sys (ext w)) (ext w) = (path, x1)"
    and fails: "create_of sys path x1 = (Inl err, x2)"
    and later: "now_of sys (ext w) \<le> now_of sys (ext w')"
  shows "fst (snd (Write sys p drf w)) = drf
         \<and> fst (Write sys p drf w)
             = (case file drf of None \<Rightarrow> (0, Some ErrInvalid)
                | Some h \<Rightarrow> fst (write_of sys h p x2))
         \<and> new_events w (snd (snd (Write sys p drf w)))
             = Create path (Inl err)
               # (case file drf of None \<Rightarrow> []
                  | Some h \<Rightarrow> [FWrite h p (fst (write_of sys h p x2))])
         \<and> list_ex is_Create
             (new_events w' (snd (snd (Write sys p' (fst (snd (Write sys p drf w))) w'))))"
proof -
  have unchanged: "fst (snd (Write sys p drf w)) = drf"
    by (simp add: Write_due_fail [OF due name fails])
  have result: "fst (Write sys p drf w)
      = (case file drf of None \<Rightarrow> (0, Some ErrInvalid)
         | Some h \<Rightarrow> fst (write_of sys h p x2))"
    by (simp add: Write_due_fail [OF due name fails] File_Write_def split_beta
        split: option.splits)
  have events: "new_events w (snd (snd (Write sys p drf w)))
      = Create path (Inl err)
        # (case file drf of None \<Rightarrow> []
           | Some h \<Rightarrow> [FWrite h p (fst (write_of sys h p x2))])"
    by (simp add: Write_due_fail [OF due name fails] File_Write_def new_events_def split_beta
        split: option.splits)
  have due': "file drf = None \<or> duration drf \<le> Sub (now_of sys (ext w')) (lastTime drf)"
    using due Sub_mono [OF later, of "lastTime drf"] by auto
  have retried: "list_ex is_Create (new_events w' (snd (snd (Write sys p' drf w'))))"
    using due' by (simp add: Write_rotation_iff_Sub)
  from unchanged result events retried show ?thesis
    by simp
qed

theorem failed_rotation_keeps_state_witness:
  "fst (snd (Write sim_os ''B'' sim_drf1 (refusing True (sim_world1 1500000000)))) = sim_drf1
   \<and> fst (Write sim_os ''B'' sim_drf1 (refusing True (sim_world1 1500000000))) = (1, None)
   \<and> new_events (refusing True (sim_world1 1500000000))
        (snd (snd (Write sim_os ''B'' sim_drf1 (refusing True (sim_world1 1500000000)))))
      = [Create ''D/19700101-000001-1.log'' (Inl (ErrorString ''permission denied'')),
         FWrite 0 ''B'' (1, None)]
   \<and> list_ex is_Create
        (new_events (sim_world1 2000000000)
          (snd (snd (Write sim_os ''C''
             (fst (snd (Write sim_os ''B'' sim_drf1 (refusing True (sim_world1 1500000000)))))
             (sim_world1 2000000000)))))"
proof -
  let ?w = "refusing True (sim_world1 1500000000)"
  let ?x1 = "(ext ?w)\<lparr>rng := 2\<rparr>"
  have due: "file sim_drf1 = None
      \<or> duration sim_drf1 \<le> Sub (now_of sim_os (ext ?w)) (lastTime sim_drf1)"
    by (simp add: sim_drf1_eq sim_world1_eq refusing_def sim_drf_def sim_os_def Sub_def
        Second_def maxDuration_def minDurationValue_def)
  have name: "nameGenerator sim_drf1 (directory sim_drf1) (now_of sim_os (ext ?w)) (ext ?w)
      = (''D/19700101-000001-1.log'', ?x1)"
    by (simp add: sim_drf1_eq sim_world1_eq refusing_def sim_drf_def sim_os_def sim0_def
        sim_NextName_def sim_name_Suc_0)
  have fails: "create_of sim_os ''D/19700101-000001-1.log'' ?x1
      = (Inl (ErrorString ''permission denied''), ?x1)"
    by (simp add: sim_world1_eq refusing_def sim_os_def sim_create_def sim0_def)
  have later: "now_of sim_os (ext ?w) \<le> now_of sim_os (ext (sim_world1 2000000000))"
    by (simp add: sim_world1_eq refusing_def sim_os_def)
  have old: "(case file sim_drf1 of None \<Rightarrow> (0, Some ErrInvalid)
      | Some h \<Rightarrow> fst (write_of sim_os h ''B'' ?x1)) = (1, None)"
    by (simp add: sim_drf1_eq sim_world1_eq refusing_def sim_os_def sim_write_def sim0_def)
  have old_events: "(case file sim_drf1 of None \<Rightarrow> []
      | Some h \<Rightarrow> [FWrite h ''B'' (fst (write_of sim_os h ''B'' ?x1))])
      = [FWrite 0 ''B'' (1, None)]"
    by (simp add: sim_drf1_eq sim_world1_eq refusing_def sim_os_def sim_write_def sim0_def)
  show ?thesis
    using failed_rotation_keeps_state [OF due name fails later, of "''B''" "''C''"]
    unfolding old old_events .
qed

section \<open>A rotation whose creation succeeds\<close>

text \<open>
  C3. When a write attempts a rotation and the creation of the next file succeeds, the
  previous handle is closed (one \<open>Close\<close> call on it, right after the creation; none when
  the handle was unset) and whatever that call returns is ignored: the created handle
  becomes the active file, the time of the last rotation becomes the time read at the
  start of this write's check, and the write goes to the new handle, whose result is
  returned.
\<close>

theorem successful_rotation_installs:
  assumes due: "file drf = None \<or> duration drf \<le> Sub (now_of sys (ext w)) (lastTime drf)"
    and name: "nameGenerator drf (directory drf) (now_of sys (ext w)) (ext w) = (path, x1)"
    and created: "create_of sys path x1 = (Inr h, x2)"
  shows "fst (snd (Write sys p drf w)) = drf\<lparr>file := Some h, lastTime := now_of sys (ext w)\<rparr>
         \<and> new_events w (snd (snd (Write sys p drf w)))
             = Create path (Inr h)
               # (case file drf of None \<Rightarrow> []
                  | Some old \<Rightarrow> [FClose old (fst (close_of sys old x2))])
               @ [FWrite h p (fst (Write sys p drf w))]
         \<and> fst (Write sys p drf w)
             = fst (write_of sys h p
                     (case file drf of None \<Rightarrow> x2 | Some old \<Rightarrow> snd (close_of sys old x2)))"
proof (cases "file drf")
  case None
  obtain r x4 where written: "write_of sys h p x2 = (r, x4)"
    by (cases "write_of sys h p x2")
  from Write_due_ok_None [OF None name created written] None written show ?thesis
    by (simp add: new_events_def)
next
  case (Some old)
  with due have due': "duration drf \<le> Sub (now_of sys (ext w)) (lastTime drf)"
    by simp
  obtain e x3 where closing: "close_of sys old x2 = (e, x3)"
    by (cases "close_of sys old x2")
  obtain r x4 where written: "write_of sys h p x3 = (r, x4)"
    by (cases "write_of sys h p x3")
  from Write_due_ok_Some [OF Some due' name created closing written] Some closing written
  show ?thesis
    by (simp add: new_events_def)
qed

theorem successful_rotation_installs_witness:
  "fst (snd (Write sim_os ''B'' sim_drf1 (sim_world1_closed 1500000000)))
     = sim_drf1\<lparr>file := Some 1, lastTime := 1500000000\<rparr>
   \<and> new_events (sim_world1_closed 1500000000)
        (snd (snd (Write sim_os ''B'' sim_drf1 (sim_world1_closed 1500000000))))
      = [Create ''D/19700101-000001-1.log'' (Inr 1),
         FClose 0 (Some (ErrorString ''file already closed'')),
         FWrite 1 ''B'' (1, None)]
   \<and> fst (Write sim_os ''B'' sim_drf1 (sim_world1_closed 1500000000)) = (1, None)"
proof -
  let ?w = "sim_world1_closed 1500000000"
  let ?x1 = "(ext ?w)\<lparr>rng := 2\<rparr>"
  let ?x2 = "?x1\<lparr>fds := [''D/19700101-000000-0.log'', ''D/19700101-000001-1.log''],
      disk := [(''D/19700101-000000-0.log'', ''A''), (''D/19700101-000001-1.log'', [])]\<rparr>"
  have due: "file sim_drf1 = None
      \<or> duration sim_drf1 \<le> Sub (now_of sim_os (ext ?w)) (lastTime sim_drf1)"
    by (simp add: sim_drf1_eq sim_world1_closed_eq sim_drf_def sim_os_def Sub_def
        Second_def maxDuration_def minDurationValue_def)
  have name: "nameGenerator sim_drf1 (directory sim_drf1) (now_of sim_os (ext ?w)) (ext ?w)
      = (''D/19700101-000001-1.log'', ?x1)"
    by (simp add: sim_drf1_eq sim_world1_closed_eq sim_drf_def sim_os_def sim0_def
        sim_NextName_def sim_name_Suc_0)
  have created: "create_of sim_os ''D/19700101-000001-1.log'' ?x1 = (Inr 1, ?x2)"
    by (simp add: sim_world1_closed_eq sim_os_def sim_create_def sim0_def)
  have closing: "(case file sim_drf1 of None \<Rightarrow> []
      | Some old \<Rightarrow> [FClose old (fst (close_of sim_os old ?x2))])
      = [FClose 0 (Some (ErrorString ''file already closed''))]"
    by (simp add: sim_drf1_eq sim_world1_closed_eq sim_os_def sim_close_def sim0_def)
  have written: "fst (write_of sim_os 1 ''B''
      (case file sim_drf1 of None \<Rightarrow> ?x2 | Some old \<Rightarrow> snd (close_of sim_os old ?x2)))
      = (1, None)"
    by (simp add: sim_drf1_eq sim_world1_closed_eq sim_os_def sim_close_def sim_write_def
        sim0_def)
  have now: "now_of sim_os (ext ?w) = 1500000000"
    by (simp add: sim_world1_closed_eq sim_os_def)
  note th = successful_rotation_installs [OF due name created, of "''B''"]
  from th have result: "fst (Write sim_os ''B'' sim_drf1 ?w) = (1, None)"
    unfolding written by simp
  from th show ?thesis
    unfolding closing now result by simp
qed

section \<open>What Write returns\<close>

text \<open>
  C6. The count and the error that \<open>Write\<close> returns are exactly those of the write on
  the file that is active once the rotation check is done, partial counts and errors
  included: one write on that handle reaches the operating system, with the caller's
  bytes, and its recorded result is the value returned; there is no second attempt.
  When no file is active the result is that of a nil file, \<open>(0, os.ErrInvalid)\<close>, and
  no write reaches the operating system.
\<close>

theorem Write_returns_underlying_result:
  "(file (fst (snd (Write sys p drf w))) = None \<longrightarrow>
      fst (Write sys p drf w) = (0, Some ErrInvalid)
      \<and> filter is_FWrite (new_events w (snd (snd (Write sys p drf w)))) = [])
   \<and> (\<forall>h. file (fst (snd (Write sys p drf w))) = Some h \<longrightarrow>
      fst (Write sys p drf w)
        = fst (write_of sys h p (ext (snd (ensureFileIsCorrect sys drf w))))
      \<and> filter is_FWrite (new_events w (snd (snd (Write sys p drf w))))
        = [FWrite h p (fst (Write sys p drf w))])"
proof -
  have active: "fst (snd (Write sys p drf w)) = fst (ensureFileIsCorrect sys drf w)"
    by (simp add: Write_def split_beta)
  have result: "fst (Write sys p drf w)
      = (case file (fst (ensureFileIsCorrect sys drf w)) of None \<Rightarrow> (0, Some ErrInvalid)
         | Some h \<Rightarrow> fst (write_of sys h p (ext (snd (ensureFileIsCorrect sys drf w)))))"
    by (simp add: Write_def File_Write_def split_beta split: option.splits)
  have writes: "filter is_FWrite (new_events w (snd (snd (Write sys p drf w))))
      = (case file (fst (ensureFileIsCorrect sys drf w)) of None \<Rightarrow> []
         | Some h \<Rightarrow> [FWrite h p (fst (Write sys p drf w))])"
    by (simp add: Write_events_split ensure_no_writes split: option.splits)
  show ?thesis
    unfolding active result [symmetric] writes
    by (simp add: result split: option.splits)
qed

theorem Write_returns_underlying_result_witness:
  "file (fst (snd (Write sim_os ''BC'' sim_drf1 (with_space 1 (sim_world1 500000000)))))
     = Some 0
   \<and> fst (Write sim_os ''BC'' sim_drf1 (with_space 1 (sim_world1 500000000)))
     = (1, Some (ErrorString ''no space left on device''))
   \<and> filter is_FWrite (new_events (with_space 1 (sim_world1 500000000))
        (snd (snd (Write sim_os ''BC'' sim_drf1 (with_space 1 (sim_world1 500000000))))))
     = [FWrite 0 ''BC'' (1, Some (ErrorString ''no space left on device''))]"
proof -
  let ?w = "with_space 1 (sim_world1 500000000)"
  have set: "file sim_drf1 = Some 0"
    by (simp add: sim_drf1_eq)
  have not_due: "Sub (now_of sim_os (ext ?w)) (lastTime sim_drf1) < duration sim_drf1"
    by (simp add: sim_drf1_eq sim_world1_eq with_space_def sim_drf_def sim_os_def Sub_def
        Second_def maxDuration_def minDurationValue_def)
  have checked: "ensureFileIsCorrect sim_os sim_drf1 ?w = (sim_drf1, ?w)"
    using set not_due by (rule ensure_not_due)
  have active: "file (fst (snd (Write sim_os ''BC'' sim_drf1 ?w))) = Some 0"
    using checked set by (simp add: Write_def split_beta)
  have underlying: "fst (write_of sim_os 0 ''BC'' (ext ?w))
      = (1, Some (ErrorString ''no space left on device''))"
    by (simp add: sim_world1_eq with_space_def sim_os_def sim_write_def sim0_def)
  from Write_returns_underlying_result [of sim_os "''BC''" sim_drf1 ?w] active
  have "fst (Write sim_os ''BC'' sim_drf1 ?w)
        = fst (write_of sim_os 0 ''BC'' (ext (snd (ensureFileIsCorrect sim_os sim_drf1 ?w))))
      \<and> filter is_FWrite (new_events ?w (snd (snd (Write sim_os ''BC'' sim_drf1 ?w))))
        = [FWrite 0 ''BC'' (fst (Write sim_os ''BC'' sim_drf1 ?w))]"
    by blast
  then have "fst (Write sim_os ''BC'' sim_drf1 ?w)
        = (1, Some (ErrorString ''no space left on device''))
      \<and> filter is_FWrite (new_events ?w (snd (snd (Write sim_os ''BC'' sim_drf1 ?w))))
        = [FWrite 0 ''BC'' (fst (Write sim_os ''BC'' sim_drf1 ?w))]"
    unfolding checked snd_conv underlying .
  with active show ?thesis
    by simp
qed

section \<open>Replacing the name generator\<close>

text \<open>
  C7. \<open>SetNameGenerator\<close> replaces the name generator and nothing else: the open file,
  the time of the last rotation, the threshold and the directory are as before. A
  write for which no rotation is due does not consult the new generator: it does
  exactly what it would have done without the replacement, on the same file. A write
  that rotates asks for the creation of the path that the new generator gives for the
  directory and the current time.
\<close>

theorem SetNameGenerator_frame:
  "file (SetNameGenerator g drf) = file drf
   \<and> lastTime (SetNameGenerator g drf) = lastTime drf
   \<and> duration (SetNameGenerator g drf) = duration drf
   \<and> directory (SetNameGenerator g drf) = directory drf
   \<and> nameGenerator (SetNameGenerator g drf) = g
   \<and> (file drf \<noteq> None \<and> Sub (now_of sys (ext w)) (lastTime drf) < duration drf \<longrightarrow>
        Write sys p (SetNameGenerator g drf) w
          = (fst (Write sys p drf w), SetNameGenerator g (fst (snd (Write sys p drf w))),
             snd (snd (Write sys p drf w))))
   \<and> (file drf = None \<or> duration drf \<le> Sub (now_of sys (ext w)) (lastTime drf) \<longrightarrow>
        (\<exists>r es. new_events w (snd (snd (Write sys p (SetNameGenerator g drf) w)))
           = Create (fst (g (directory drf) (now_of sys (ext w)) (ext w))) r # es))"
proof -
  have frame: "file (SetNameGenerator g drf) = file drf"
    "lastTime (SetNameGenerator g drf) = lastTime drf"
    "duration (SetNameGenerator g drf) = duration drf"
    "directory (SetNameGenerator g drf) = directory drf"
    "nameGenerator (SetNameGenerator g drf) = g"
    by (simp_all add: SetNameGenerator_def)
  have quiet: "Write sys p (SetNameGenerator g drf) w
      = (fst (Write sys p drf w), SetNameGenerator g (fst (snd (Write sys p drf w))),
         snd (snd (Write sys p drf w)))"
    if "file drf \<noteq> None" and "Sub (now_of sys (ext w)) (lastTime drf) < duration drf"
  proof -
    from that obtain h where h: "file drf = Some h"
      by auto
    obtain r x where written: "write_of sys h p (ext w) = (r, x)"
      by (cases "write_of sys h p (ext w)")
    have "file (SetNameGenerator g drf) = Some h"
      and "Sub (now_of sys (ext w)) (lastTime (SetNameGenerator g drf))
            < duration (SetNameGenerator g drf)"
      using h that(2) by (simp_all add: frame)
    from Write_not_due [OF this written] Write_not_due [OF h that(2) written]
    show ?thesis
      by simp
  qed
  have effect: "\<exists>r es. new_events w (snd (snd (Write sys p (SetNameGenerator g drf) w)))
      = Create (fst (g (directory drf) (now_of sys (ext w)) (ext w))) r # es"
    if "file drf = None \<or> duration drf \<le> Sub (now_of sys (ext w)) (lastTime drf)"
  proof -
    from that have "file (SetNameGenerator g drf) = None
        \<or> duration (SetNameGenerator g drf)
            \<le> Sub (now_of sys (ext w)) (lastTime (SetNameGenerator g drf))"
      by (simp add: frame)
    from Write_events_due [OF this, of p] show ?thesis
      by (auto simp: frame)
  qed
  from frame quiet effect show ?thesis
    by blast
qed

theorem SetNameGenerator_frame_witness:
  "file (SetNameGenerator sim_fixed_name sim_drf1) = Some 0
   \<and> lastTime (SetNameGenerator sim_fixed_name sim_drf1) = 0
   \<and> duration (SetNameGenerator sim_fixed_name sim_drf1) = Second
   \<and> directory (SetNameGenerator sim_fixed_name sim_drf1) = ''D''
   \<and> disk (ext (snd (snd (Write sim_os ''B'' (SetNameGenerator sim_fixed_name sim_drf1)
                              (sim_world1 500000000)))))
       = [(''D/19700101-000000-0.log'', ''AB'')]
   \<and> (\<exists>r es. new_events (sim_world1 1500000000)
                (snd (snd (Write sim_os ''B'' (SetNameGenerator sim_fixed_name sim_drf1)
                             (sim_world1 1500000000))))
              = Create ''D/custom.log'' r # es)"
proof -
  let ?early = "sim_world1 500000000"
  let ?late = "sim_world1 1500000000"
  have not_due: "file sim_drf1 \<noteq> None
      \<and> Sub (now_of sim_os (ext ?early)) (lastTime sim_drf1) < duration sim_drf1"
    by (simp add: sim_drf1_eq sim_world1_eq sim_drf_def sim_os_def Sub_def Second_def
        maxDuration_def minDurationValue_def)
  have due: "file sim_drf1 = None
      \<or> duration sim_drf1 \<le> Sub (now_of sim_os (ext ?late)) (lastTime sim_drf1)"
    by (simp add: sim_drf1_eq sim_world1_eq sim_drf_def sim_os_def Sub_def Second_def
        maxDuration_def minDurationValue_def)
  have path: "fst (sim_fixed_name (directory sim_drf1) (now_of sim_os (ext ?late)) (ext ?late))
      = ''D/custom.log''"
    by (simp add: sim_fixed_name_def sim_drf1_eq sim_drf_def)
  have fields: "file sim_drf1 = Some 0" "lastTime sim_drf1 = 0" "duration sim_drf1 = Second"
    "directory sim_drf1 = ''D''"
    by (simp_all add: sim_drf1_eq sim_drf_def)
  note early = SetNameGenerator_frame [of sim_fixed_name sim_drf1 sim_os ?early "''B''"]
  note late = SetNameGenerator_frame [of sim_fixed_name sim_drf1 sim_os ?late "''B''"]
  from early not_due
  have same: "Write sim_os ''B'' (SetNameGenerator sim_fixed_name sim_drf1) ?early
      = (fst (sim_two_writes 500000000),
         SetNameGenerator sim_fixed_name (fst (snd (sim_two_writes 500000000))),
         snd (snd (sim_two_writes 500000000)))"
    unfolding sim_two_writes_def by blast
  from late due
  have new: "\<exists>r es. new_events ?late
      (snd (snd (Write sim_os ''B'' (SetNameGenerator sim_fixed_name sim_drf1) ?late)))
      = Create ''D/custom.log'' r # es"
    unfolding path by blast
  from early have "file (SetNameGenerator sim_fixed_name sim_drf1) = Some 0
      \<and> lastTime (SetNameGenerator sim_fixed_name sim_drf1) = 0
      \<and> duration (SetNameGenerator sim_fixed_name sim_drf1) = Second
      \<and> directory (SetNameGenerator sim_fixed_name sim_drf1) = ''D''"
    unfolding fields by blast
  with new show ?thesis
    by (simp add: same sim_second_write_early)
qed

section \<open>The default file name\<close>



section \<open>The default file name and the random generator\<close>

text \<open>
  C9, as amended. The default name generator is a function of the directory, the time
  and the number it draws from the shared random generator: two invocations with the
  same directory and the same time that draw the same number return the same path.
\<close>

theorem nextFilename_determined_by_draw:
  assumes "fst (Intn seed1 1000) = fst (Intn seed2 1000)"
  shows "fst (nextFilename Intn dir now seed1) = fst (nextFilename Intn dir now seed2)"
  using assms by (simp add: nextFilename_def split_beta)

theorem nextFilename_determined_by_draw_witness:
  "fst (sim_Intn 5 1000) = fst (sim_Intn 1005 1000)
   \<and> fst (nextFilename sim_Intn ''D'' 0 5) = fst (nextFilename sim_Intn ''D'' 0 1005)"
proof -
  have same: "fst (sim_Intn 5 1000) = fst (sim_Intn 1005 1000)"
    by (simp add: sim_Intn_def)
  from nextFilename_determined_by_draw [of sim_Intn 5 1005 "''D''" 0] same show ?thesis
    by simp
qed

text \<open>
  C9 as stated fails: the generator reads and advances the package variable \<open>random\<close>,
  so two invocations in a row with the same directory and the same time return
  different paths when the draws differ. Here the second invocation starts from the
  generator state that the first one left.
\<close>

theorem nextFilename_same_inputs_counterexample:
  "fst (nextFilename sim_Intn ''D'' 0 0)
     \<noteq> fst (nextFilename sim_Intn ''D'' 0 (snd (nextFilename sim_Intn ''D'' 0 0)))"
  unfolding sim_name_0 snd_conv sim_name_0_1 fst_conv by simp

section \<open>Writing before any file exists\<close>

text \<open>
  C10. When the active file is unset and the creation attempted during the write fails,
  \<open>Write\<close> returns the count 0 with the error of a nil file (\<open>os.ErrInvalid\<close>) instead
  of crashing, and the rolling file is unchanged. A later write during which the
  creation succeeds, and whose underlying write succeeds, returns that success and
  leaves the new handle installed.
\<close>

theorem Write_unset_creation_fails:
  assumes unset: "file drf = None"
    and name: "nameGenerator drf (directory drf) (now_of sys (ext w)) (ext w) = (path, x1)"
    and fails: "create_of sys path x1 = (Inl err, x2)"
    and name': "nameGenerator drf (directory drf) (now_of sys (ext w')) (ext w') = (path', x1')"
    and created: "create_of sys path' x1' = (Inr h, x2')"
    and written: "write_of sys h p' x2' = ((n, None), x3')"
  shows "Write sys p drf w
           = ((0, Some ErrInvalid), drf,
              \<lparr>trace = trace w @ [Create path (Inl err)], ext = x2\<rparr>)
         \<and> Write sys p' (fst (snd (Write sys p drf w))) w'
           = ((n, None), drf\<lparr>file := Some h, lastTime := now_of sys (ext w')\<rparr>,
              \<lparr>trace = trace w' @ [Create path' (Inr h), FWrite h p' (n, None)],
                ext = x3'\<rparr>)"
proof -
  have first: "Write sys p drf w
      = ((0, Some ErrInvalid), drf,
         \<lparr>trace = trace w @ [Create path (Inl err)], ext = x2\<rparr>)"
    using unset rollingToNextFile_fail [OF name fails]
    by (simp add: Write_def ensure_due File_Write_def)
  have second: "Write sys p' drf w'
      = ((n, None), drf\<lparr>file := Some h, lastTime := now_of sys (ext w')\<rparr>,
         \<lparr>trace = trace w' @ [Create path' (Inr h), FWrite h p' (n, None)], ext = x3'\<rparr>)"
    using unset written rollingToNextFile_ok_None [OF name' created unset]
    by (simp add: Write_def ensure_due File_Write_def)
  from first second show ?thesis by simp
qed

theorem Write_unset_creation_fails_witness:
  "Write sim_os ''A'' sim_drf (refusing True world0)
     = ((0, Some ErrInvalid), sim_drf,
        \<lparr>trace = [Create ''D/19700101-000000-0.log'' (Inl (ErrorString ''permission denied''))],
          ext = sim0\<lparr>refuse := True, rng := 1\<rparr>\<rparr>)
   \<and> Write sim_os ''B''
        (fst (snd (Write sim_os ''A'' sim_drf (refusing True world0)))) world0
     = ((1, None), sim_drf\<lparr>file := Some 0, lastTime := 0\<rparr>,
        \<lparr>trace = [Create ''D/19700101-000000-0.log'' (Inr 0), FWrite 0 ''B'' (1, None)],
          ext = sim0\<lparr>rng := 1, fds := [''D/19700101-000000-0.log''],
                  disk := [(''D/19700101-000000-0.log'', ''B'')], space := 999\<rparr>\<rparr>)"
proof -
  have unset: "file sim_drf = None"
    by (simp add: sim_drf_def)
  have name: "nameGenerator sim_drf (directory sim_drf)
      (now_of sim_os (ext (refusing True world0))) (ext (refusing True world0))
      = (''D/19700101-000000-0.log'', sim0\<lparr>refuse := True, rng := 1\<rparr>)"
    by (simp add: sim_drf_def sim_os_def refusing_def world0_def sim0_def sim_NextName_def
        sim_name_0)
  have fails: "create_of sim_os ''D/19700101-000000-0.log'' (sim0\<lparr>refuse := True, rng := 1\<rparr>)
      = (Inl (ErrorString ''permission denied''), sim0\<lparr>refuse := True, rng := 1\<rparr>)"
    by (simp add: sim_os_def sim_create_def sim0_def)
  have name': "nameGenerator sim_drf (directory sim_drf) (now_of sim_os (ext world0)) (ext world0)
      = (''D/19700101-000000-0.log'', sim0\<lparr>rng := 1\<rparr>)"
    by (simp add: sim_drf_def sim_os_def world0_def sim0_def sim_NextName_def sim_name_0)
  have created: "create_of sim_os ''D/19700101-000000-0.log'' (sim0\<lparr>rng := 1\<rparr>)
      = (Inr 0, sim0\<lparr>rng := 1, fds := [''D/19700101-000000-0.log''],
                      disk := [(''D/19700101-000000-0.log'', [])]\<rparr>)"
    by (simp add: sim_os_def sim_create_def sim0_def)
  have written: "write_of sim_os 0 ''B''
      (sim0\<lparr>rng := 1, fds := [''D/19700101-000000-0.log''],
             disk := [(''D/19700101-000000-0.log'', [])]\<rparr>)
      = ((1, None), sim0\<lparr>rng := 1, fds := [''D/19700101-000000-0.log''],
                      disk := [(''D/19700101-000000-0.log'', ''B'')], space := 999\<rparr>)"
    by (simp add: sim_os_def sim_write_def sim0_def)
  have tr: "trace (refusing True world0) = []" "trace world0 = []"
    by (simp_all add: refusing_def world0_def)
  have now: "now_of sim_os (ext world0) = 0"
    by (simp add: sim_os_def world0_def sim0_def)
  show ?thesis
    using Write_unset_creation_fails [OF unset name fails name' created written,
        of "''A''"]
    unfolding tr now append_Nil .
qed


end
